theory Spec2Isabelle
  imports Main
begin

section \<open>The sessions table logic: data model\<close>

text \<open>
  The module verified here is the kea logic \<^verbatim>\<open>sessionsTableLogic\<close>: a redux-style store
  slice (reducers), derived values (selectors), asynchronous listeners and a loader, and
  the two halves of the URL synchronisation (\<^verbatim>\<open>actionToUrl\<close> through \<^verbatim>\<open>buildURL\<close>,
  and \<^verbatim>\<open>urlToAction\<close>).

  JavaScript values are modelled as follows.
  \<^item> \<^verbatim>\<open>T | null\<close> and optional fields (\<^verbatim>\<open>T | undefined\<close>) are \<open>T option\<close>.
  \<^item> \<^verbatim>\<open>number\<close> is \<open>int\<close>; the only operation the code applies to a number is the
    truthiness test, which fails exactly for \<open>0\<close>.
  \<^item> Strings are \<open>string\<close>; a string is truthy iff it is not empty.
  \<^item> An array is a list; an array is always truthy, also when it is empty.
\<close>

type_synonym SessionRecordingId = string

text \<open>
  Modelled from the spec: the declaration of \<^verbatim>\<open>SessionType\<close> (module \<^verbatim>\<open>~/types\<close>) is not
  among the sources. The spec describes a session as an identifier with the list of its
  session-recording identifiers; the code reads the field \<^verbatim>\<open>session_recording_ids\<close> only.
\<close>

record SessionType =
  global_session_id :: string
  session_recording_ids :: "SessionRecordingId list"

text \<open>
  Modelled from the spec: the declaration of \<^verbatim>\<open>PropertyFilter\<close> (module \<^verbatim>\<open>~/types\<close>) is
  not among the sources. The spec describes a filter as an opaque key/operator/value
  triple that is passed through unchanged. The code compares two filter lists by
  \<^verbatim>\<open>JSON.stringify(a) !== JSON.stringify(b)\<close>; on such plain data the serialisation is
  injective, so the comparison is modelled as inequality of the lists.
\<close>

record PropertyFilter =
  filter_key :: string
  filter_operator :: string
  filter_value :: string

subsection \<open>Dates\<close>

text \<open>
  A \<^verbatim>\<open>Moment\<close> of the moment library is a calendar day (numbered from an arbitrary
  epoch) with a time of day in milliseconds, or the invalid moment that \<^verbatim>\<open>moment(null)\<close>
  and \<^verbatim>\<open>moment(s)\<close> for an unparseable \<^verbatim>\<open>s\<close> return. The text that
  \<^verbatim>\<open>format('YYYY-MM-DD')\<close> produces is represented by the day it denotes
  (\<open>YYYY_MM_DD d\<close>) or is the text \<^verbatim>\<open>Invalid date\<close>; \<^verbatim>\<open>moment(s)\<close> parses it back. Both
  texts are non-empty, hence truthy.
\<close>

datatype Moment = Valid (day_of: int) (ms_of_day: nat) | Invalid

datatype DateString = YYYY_MM_DD int | Invalid_date

fun format_YYYY_MM_DD :: "Moment \<Rightarrow> DateString" where
  "format_YYYY_MM_DD (Valid d t) = YYYY_MM_DD d"
| "format_YYYY_MM_DD Invalid = Invalid_date"

fun moment :: "DateString \<Rightarrow> Moment" where
  "moment (YYYY_MM_DD d) = Valid d 0"
| "moment Invalid_date = Invalid"

fun startOf_day :: "Moment \<Rightarrow> Moment" where
  "startOf_day (Valid d t) = Valid d 0"
| "startOf_day Invalid = Invalid"

fun add_day :: "int \<Rightarrow> Moment \<Rightarrow> Moment" where
  "add_day n (Valid d t) = Valid (d + n) t"
| "add_day n Invalid = Invalid"

text \<open>\<^verbatim>\<open>moment(values.selectedDate)\<close>: a copy of the moment, invalid for \<^verbatim>\<open>null\<close>.\<close>

fun moment_of :: "Moment option \<Rightarrow> Moment" where
  "moment_of None = Invalid"
| "moment_of (Some m) = m"

text \<open>\<^verbatim>\<open>moment().startOf('day')\<close>, where the clock reads a time on day \<open>today\<close>.\<close>

definition moment_now_startOf_day :: "int \<Rightarrow> Moment" where
  "moment_now_startOf_day today = Valid today 0"

subsection \<open>The store slice and its actions\<close>

record Values =
  sessions :: "SessionType list"
  isLoadingNext :: bool
  nextOffset :: "int option"
  selectedDate :: "Moment option"
  properties :: "PropertyFilter list"
  sessionRecordingId :: "SessionRecordingId option"

text \<open>
  The actions of the logic. \<open>LoadSessions\<close>, \<open>LoadSessionsSuccess\<close> and
  \<open>LoadSessionsFailure\<close> are the three actions that the kea-loaders plugin creates for
  the loader \<^verbatim>\<open>sessions.loadSessions\<close>; the others are listed under \<^verbatim>\<open>actions\<close>.
  The plugin also keeps a flag \<^verbatim>\<open>sessionsLoading\<close>; the module never reads it, and it is
  left out of the values.
\<close>

datatype action =
    LoadSessions
  | LoadSessionsSuccess "SessionType list"
  | LoadSessionsFailure
  | SetNextOffset "int option"
  | FetchNextSessions
  | AppendNewSessions "SessionType list"
  | PreviousDay
  | NextDay
  | SetFilters "PropertyFilter list" "Moment option"
  | SetSessionRecordingId SessionRecordingId
  | CloseSessionPlayer

definition defaults :: Values where
  "defaults = \<lparr> sessions = [], isLoadingNext = False, nextOffset = None,
                selectedDate = None, properties = [], sessionRecordingId = None \<rparr>"

subsection \<open>Reducers\<close>

text \<open>
  One reducer per key, as under \<^verbatim>\<open>reducers\<close>. An action that a reducer does not list
  leaves its value unchanged. The loader contributes \<open>LoadSessionsSuccess\<close> to the
  reducer of \<^verbatim>\<open>sessions\<close>: the value becomes what the loader returned.
\<close>

fun sessions_reducer :: "SessionType list \<Rightarrow> action \<Rightarrow> SessionType list" where
  "sessions_reducer state (AppendNewSessions new) = state @ new"
| "sessions_reducer state LoadSessionsFailure = []"
| "sessions_reducer state (LoadSessionsSuccess loaded) = loaded"
| "sessions_reducer state _ = state"

fun isLoadingNext_reducer :: "bool \<Rightarrow> action \<Rightarrow> bool" where
  "isLoadingNext_reducer state FetchNextSessions = True"
| "isLoadingNext_reducer state (AppendNewSessions new) = False"
| "isLoadingNext_reducer state _ = state"

fun nextOffset_reducer :: "int option \<Rightarrow> action \<Rightarrow> int option" where
  "nextOffset_reducer state (SetNextOffset n) = n"
| "nextOffset_reducer state LoadSessionsFailure = None"
| "nextOffset_reducer state _ = state"

fun selectedDate_reducer :: "Moment option \<Rightarrow> action \<Rightarrow> Moment option" where
  "selectedDate_reducer state (SetFilters ps d) = d"
| "selectedDate_reducer state _ = state"

fun properties_reducer :: "PropertyFilter list \<Rightarrow> action \<Rightarrow> PropertyFilter list" where
  "properties_reducer state (SetFilters ps d) = ps"
| "properties_reducer state _ = state"

fun sessionRecordingId_reducer ::
  "SessionRecordingId option \<Rightarrow> action \<Rightarrow> SessionRecordingId option" where
  "sessionRecordingId_reducer state (SetSessionRecordingId r) = Some r"
| "sessionRecordingId_reducer state CloseSessionPlayer = None"
| "sessionRecordingId_reducer state _ = state"

definition reducers :: "Values \<Rightarrow> action \<Rightarrow> Values" where
  "reducers v a =
     \<lparr> sessions = sessions_reducer (sessions v) a,
       isLoadingNext = isLoadingNext_reducer (isLoadingNext v) a,
       nextOffset = nextOffset_reducer (nextOffset v) a,
       selectedDate = selectedDate_reducer (selectedDate v) a,
       properties = properties_reducer (properties v) a,
       sessionRecordingId = sessionRecordingId_reducer (sessionRecordingId v) a \<rparr>"

subsection \<open>Selectors\<close>

definition selectedDateURLparam :: "Values \<Rightarrow> DateString option" where
  "selectedDateURLparam v = map_option format_YYYY_MM_DD (selectedDate v)"

text \<open>
  \<^verbatim>\<open>Array.prototype.flatMap\<close>: the callback is applied to the elements from left to
  right and the elements of each returned array are appended to the result.
\<close>

definition flatMap :: "('a \<Rightarrow> 'b list) \<Rightarrow> 'a list \<Rightarrow> 'b list" where
  "flatMap f xs = foldl (\<lambda>acc x. acc @ f x) [] xs"

definition orderedSessionRecordingIds :: "SessionType list \<Rightarrow> SessionRecordingId list" where
  "orderedSessionRecordingIds ss = flatMap session_recording_ids ss"

text \<open>
  \<^verbatim>\<open>Array.prototype.indexOf\<close>: the index of the first element equal to the argument,
  \<open>-1\<close> when there is none.
\<close>

fun indexOf_from :: "int \<Rightarrow> 'a list \<Rightarrow> 'a \<Rightarrow> int" where
  "indexOf_from k [] x = - 1"
| "indexOf_from k (y # ys) x = (if y = x then k else indexOf_from (k + 1) ys x)"

definition indexOf :: "'a list \<Rightarrow> 'a \<Rightarrow> int" where
  "indexOf xs x = indexOf_from 0 xs x"

text \<open>The object \<^verbatim>\<open>{ next?, prev? }\<close>; an absent field is \<open>None\<close>.\<close>

record Navigation =
  nav_next :: "SessionRecordingId option"
  nav_prev :: "SessionRecordingId option"

definition navigation ::
  "SessionRecordingId list \<Rightarrow> SessionRecordingId option \<Rightarrow> Navigation" where
  "navigation recordings recordingId =
     (case recordingId of
        None \<Rightarrow> \<lparr> nav_next = None, nav_prev = None \<rparr>
      | Some r \<Rightarrow>
          (let index = indexOf recordings r;
               result0 = \<lparr> nav_next = None, nav_prev = None \<rparr>;
               result1 = (if index \<noteq> - 1 \<and> index < int (length recordings) - 1
                          then result0 \<lparr> nav_next := Some (recordings ! nat (index + 1)) \<rparr>
                          else result0);
               result2 = (if index > 0
                          then result1 \<lparr> nav_prev := Some (recordings ! nat (index - 1)) \<rparr>
                          else result1)
           in result2))"

definition sessionRecordingNavigation :: "Values \<Rightarrow> Navigation" where
  "sessionRecordingNavigation v =
     navigation (orderedSessionRecordingIds (sessions v)) (sessionRecordingId v)"

section \<open>Requests, listeners and the loader\<close>

subsection \<open>Requests and responses\<close>

text \<open>
  The object that a listener hands to \<^verbatim>\<open>toParams\<close> for the query string of
  \<^verbatim>\<open>api/insight/session/\<close>. A field that the object does not have, or whose value is
  \<^verbatim>\<open>undefined\<close> or \<^verbatim>\<open>null\<close>, is \<open>None\<close>.
\<close>

record Query =
  date_from :: "DateString option"
  date_to :: "DateString option"
  offset_param :: "int option"
  distinct_id :: "string option"
  properties_param :: "PropertyFilter list option"

text \<open>The response \<^verbatim>\<open>{ result: Session[], offset?: number }\<close>.\<close>

record Response =
  result :: "SessionType list"
  offset :: "int option"

text \<open>\<^verbatim>\<open>await api.get(...)\<close> either yields a response or throws.\<close>

datatype api_result = Resolved Response | Rejected

text \<open>\<^verbatim>\<open>if (response.offset)\<close>: a number is truthy unless it is absent or \<open>0\<close>.\<close>

fun truthy_number :: "int option \<Rightarrow> bool" where
  "truthy_number None = False"
| "truthy_number (Some n) = (n \<noteq> 0)"

subsection \<open>The logic and what it emits\<close>

text \<open>
  Besides the values, the logic carries its prop \<^verbatim>\<open>personIds\<close> and, for each of the two
  asynchronous listeners, the number of times the listener has been started. This counter
  is how kea implements \<^verbatim>\<open>breakpoint\<close>: every start of a listener takes the next number,
  and \<^verbatim>\<open>breakpoint()\<close> inside a run of the listener throws (ending that run silently) when
  the listener has been started again since this run began, that is, when the run's
  number is no longer the counter. \<^verbatim>\<open>await breakpoint(10)\<close> waits before it makes the
  same test.
\<close>

record Logic =
  vals :: Values
  personIds :: "string list option"
  loadSessions_calls :: nat
  fetchNextSessions_calls :: nat

definition initial :: "string list option \<Rightarrow> Logic" where
  "initial ids = \<lparr> vals = defaults, personIds = ids,
                   loadSessions_calls = 0, fetchNextSessions_calls = 0 \<rparr>"

datatype request_id = LoadSessions_call nat | FetchNextSessions_call nat

text \<open>
  What a step of the logic emits, in order: the actions that went through the store, the
  timer that \<^verbatim>\<open>await breakpoint(10)\<close> of a \<^verbatim>\<open>loadSessions\<close> run starts (with the query
  the run has built before it), and the HTTP requests issued.
\<close>

datatype effect =
    Dispatched action
  | Delay nat Query
  | ApiGet request_id Query

type_synonym handler = "Logic \<Rightarrow> Logic \<times> effect list"

definition skip :: handler where
  "skip s = (s, [])"

definition seq :: "handler \<Rightarrow> handler \<Rightarrow> handler" where
  "seq f g s = (case f s of (s1, e1) \<Rightarrow> (case g s1 of (s2, e2) \<Rightarrow> (s2, e1 @ e2)))"

text \<open>An action passes the reducers first; its listener, if any, runs afterwards.\<close>

definition reduce :: "action \<Rightarrow> handler" where
  "reduce a s = (s \<lparr> vals := reducers (vals s) a \<rparr>, [Dispatched a])"

subsection \<open>The loader \<^verbatim>\<open>loadSessions\<close>\<close>

definition loadSessions_params :: "Logic \<Rightarrow> Query" where
  "loadSessions_params s =
     \<lparr> date_from = selectedDateURLparam (vals s),
       date_to = selectedDateURLparam (vals s),
       offset_param = Some 0,
       distinct_id = (case personIds s of
                        None \<Rightarrow> Some []
                      | Some ids \<Rightarrow> (case ids of [] \<Rightarrow> None | i # _ \<Rightarrow> Some i)),
       properties_param = Some (properties (vals s)) \<rparr>"

text \<open>
  \<^verbatim>\<open>actions.loadSessions(true)\<close>: the run of the loader up to \<^verbatim>\<open>await breakpoint(10)\<close>.
\<close>

definition loadSessions :: handler where
  "loadSessions =
     seq (reduce LoadSessions)
       (\<lambda>s. let n = Suc (loadSessions_calls s)
            in (s \<lparr> loadSessions_calls := n \<rparr>, [Delay n (loadSessions_params s)]))"

text \<open>Run \<open>n\<close> of the loader resumes after the delay and issues its request.\<close>

definition loadSessions_delay_elapsed :: "nat \<Rightarrow> Query \<Rightarrow> handler" where
  "loadSessions_delay_elapsed n params s =
     (if n \<noteq> loadSessions_calls s then skip s
      else (s, [ApiGet (LoadSessions_call n) params]))"

text \<open>
  Run \<open>n\<close> of the loader resumes after \<^verbatim>\<open>await api.get(...)\<close>. When the request has
  thrown, the rest of the loader does not run, its promise rejects, and kea-loaders
  dispatches \<open>LoadSessionsFailure\<close> (it does so for every error that is not a
  breakpoint). Otherwise \<^verbatim>\<open>breakpoint()\<close> comes first; the value the loader returns is
  dispatched by kea-loaders as \<open>LoadSessionsSuccess\<close>.
\<close>

definition loadSessions_resumed :: "nat \<Rightarrow> api_result \<Rightarrow> handler" where
  "loadSessions_resumed n r s =
     (case r of
        Rejected \<Rightarrow> reduce LoadSessionsFailure s
      | Resolved response \<Rightarrow>
          if n \<noteq> loadSessions_calls s then skip s
          else seq (if truthy_number (offset response)
                    then reduce (SetNextOffset (offset response)) else skip)
                   (reduce (LoadSessionsSuccess (result response))) s)"

subsection \<open>The listeners\<close>

definition fetchNextSessions_params :: "Logic \<Rightarrow> Query" where
  "fetchNextSessions_params s =
     \<lparr> date_from = selectedDateURLparam (vals s),
       date_to = selectedDateURLparam (vals s),
       offset_param = nextOffset (vals s),
       distinct_id = None,
       properties_param = None \<rparr>"

text \<open>\<^verbatim>\<open>actions.fetchNextSessions()\<close>: the run of the listener up to \<^verbatim>\<open>await api.get\<close>.\<close>

definition fetchNextSessions :: handler where
  "fetchNextSessions =
     seq (reduce FetchNextSessions)
       (\<lambda>s. let n = Suc (fetchNextSessions_calls s)
            in (s \<lparr> fetchNextSessions_calls := n \<rparr>,
                [ApiGet (FetchNextSessions_call n) (fetchNextSessions_params s)]))"

text \<open>
  Run \<open>n\<close> of the listener resumes after \<^verbatim>\<open>await api.get(...)\<close>. When the request has
  thrown, the rest of the listener does not run and nothing is dispatched: the listener
  has no handler for the error and the logic has no failure action for it.
\<close>

definition fetchNextSessions_resumed :: "nat \<Rightarrow> api_result \<Rightarrow> handler" where
  "fetchNextSessions_resumed n r s =
     (case r of
        Rejected \<Rightarrow> skip s
      | Resolved response \<Rightarrow>
          if n \<noteq> fetchNextSessions_calls s then skip s
          else seq (if truthy_number (offset response)
                    then reduce (SetNextOffset (offset response))
                    else reduce (SetNextOffset None))
                   (reduce (AppendNewSessions (result response))) s)"

definition setFilters :: "PropertyFilter list \<Rightarrow> Moment option \<Rightarrow> handler" where
  "setFilters ps d =
     seq (reduce (SetFilters ps d)) (seq (reduce (SetNextOffset None)) loadSessions)"

definition previousDay :: handler where
  "previousDay =
     seq (reduce PreviousDay)
       (\<lambda>s. setFilters (properties (vals s))
              (Some (add_day (- 1) (moment_of (selectedDate (vals s))))) s)"

definition nextDay :: handler where
  "nextDay =
     seq (reduce NextDay)
       (\<lambda>s. setFilters (properties (vals s))
              (Some (add_day 1 (moment_of (selectedDate (vals s))))) s)"

fun dispatch :: "action \<Rightarrow> handler" where
  "dispatch LoadSessions = loadSessions"
| "dispatch FetchNextSessions = fetchNextSessions"
| "dispatch (SetFilters ps d) = setFilters ps d"
| "dispatch PreviousDay = previousDay"
| "dispatch NextDay = nextDay"
| "dispatch a = reduce a"

section \<open>URL synchronisation\<close>

record Params =
  param_date :: "DateString option"
  param_properties :: "PropertyFilter list option"
  param_sessionRecordingId :: "SessionRecordingId option"

text \<open>
  What \<^verbatim>\<open>buildURL\<close> reads from the router: the \<^verbatim>\<open>properties\<close> entry of the current search
  parameters and the current path.
\<close>

record Router =
  searchParams_properties :: "PropertyFilter list option"
  location_pathname :: string

fun truthy_string :: "string option \<Rightarrow> bool" where
  "truthy_string None = False"
| "truthy_string (Some s) = (s \<noteq> [])"

definition buildURL ::
  "int \<Rightarrow> Router \<Rightarrow> DateString option \<Rightarrow> SessionRecordingId option \<Rightarrow> string \<times> Params" where
  "buildURL today router dateURLparam recordingId =
     (let params0 = \<lparr> param_date = None, param_properties = None,
                      param_sessionRecordingId = None \<rparr>;
          params1 = (if dateURLparam \<noteq> Some (format_YYYY_MM_DD (moment_now_startOf_day today))
                     then params0 \<lparr> param_date := dateURLparam \<rparr> else params0);
          params2 = (case searchParams_properties router of
                       Some ps \<Rightarrow> params1 \<lparr> param_properties := Some ps \<rparr>
                     | None \<Rightarrow> params1);
          params3 = (if truthy_string recordingId
                     then params2 \<lparr> param_sessionRecordingId := recordingId \<rparr> else params2)
      in (location_pathname router, params3))"

fun actionToUrl :: "int \<Rightarrow> Router \<Rightarrow> Values \<Rightarrow> action \<Rightarrow> (string \<times> Params) option" where
  "actionToUrl today router v (SetFilters ps d) =
     Some (buildURL today router (selectedDateURLparam v) (sessionRecordingId v))"
| "actionToUrl today router v (SetSessionRecordingId r) =
     Some (buildURL today router (selectedDateURLparam v) (sessionRecordingId v))"
| "actionToUrl today router v CloseSessionPlayer =
     Some (buildURL today router (selectedDateURLparam v) None)"
| "actionToUrl today router v _ = None"

text \<open>
  The parameters that \<^verbatim>\<open>actionToUrl\<close> writes for \<^verbatim>\<open>setFilters\<close> and
  \<^verbatim>\<open>setSessionRecordingId\<close> once the values are \<open>v\<close>: the encoding of the state.
\<close>

definition encode :: "int \<Rightarrow> Router \<Rightarrow> Values \<Rightarrow> Params" where
  "encode today router v =
     snd (buildURL today router (selectedDateURLparam v) (sessionRecordingId v))"

text \<open>The two values that \<^verbatim>\<open>urlToAction\<close> decodes from the parameters.\<close>

definition newDate :: "int \<Rightarrow> Params \<Rightarrow> Moment" where
  "newDate today params =
     (case param_date params of
        Some d \<Rightarrow> startOf_day (moment d)
      | None \<Rightarrow> moment_now_startOf_day today)"

definition properties_or_empty :: "Params \<Rightarrow> PropertyFilter list" where
  "properties_or_empty params =
     (case param_properties params of Some ps \<Rightarrow> ps | None \<Rightarrow> [])"

definition urlToAction :: "int \<Rightarrow> Params \<Rightarrow> handler" where
  "urlToAction today params =
     seq (\<lambda>s. if properties_or_empty params \<noteq> properties (vals s) \<or>
                 (case selectedDate (vals s) of
                    None \<Rightarrow> False
                  | Some m \<Rightarrow> format_YYYY_MM_DD m \<noteq> format_YYYY_MM_DD (newDate today params))
              then dispatch (SetFilters (properties_or_empty params) (Some (newDate today params))) s
              else if length (sessions (vals s)) = 0 then dispatch LoadSessions s
              else skip s)
         (\<lambda>s. if truthy_string (param_sessionRecordingId params) \<and>
                 param_sessionRecordingId params \<noteq> sessionRecordingId (vals s)
              then (case param_sessionRecordingId params of
                      Some r \<Rightarrow> dispatch (SetSessionRecordingId r) s
                    | None \<Rightarrow> skip s)
              else skip s)"

section \<open>The logic as a transition system\<close>

text \<open>
  The stimuli the logic reacts to: the operations that the view invokes, a change of the
  URL (with the day the clock shows at that moment), the timer of run \<open>n\<close> of the loader
  firing (with the query that run has built), and the outcome of an HTTP request. The
  actions \<^verbatim>\<open>setNextOffset\<close> and \<^verbatim>\<open>appendNewSessions\<close> and the loader's success and
  failure actions are dispatched by the listeners and by kea-loaders only.
\<close>

datatype event =
    Invoke_loadSessions
  | Invoke_fetchNextSessions
  | Invoke_setFilters "PropertyFilter list" "Moment option"
  | Invoke_previousDay
  | Invoke_nextDay
  | Invoke_setSessionRecordingId SessionRecordingId
  | Invoke_closeSessionPlayer
  | UrlChanged int Params
  | DelayElapsed nat Query
  | Settled request_id api_result

fun step :: "Logic \<Rightarrow> event \<Rightarrow> Logic \<times> effect list" where
  "step s Invoke_loadSessions = dispatch LoadSessions s"
| "step s Invoke_fetchNextSessions = dispatch FetchNextSessions s"
| "step s (Invoke_setFilters ps d) = dispatch (SetFilters ps d) s"
| "step s Invoke_previousDay = dispatch PreviousDay s"
| "step s Invoke_nextDay = dispatch NextDay s"
| "step s (Invoke_setSessionRecordingId r) = dispatch (SetSessionRecordingId r) s"
| "step s Invoke_closeSessionPlayer = dispatch CloseSessionPlayer s"
| "step s (UrlChanged today params) = urlToAction today params s"
| "step s (DelayElapsed n params) = loadSessions_delay_elapsed n params s"
| "step s (Settled (LoadSessions_call n) r) = loadSessions_resumed n r s"
| "step s (Settled (FetchNextSessions_call n) r) = fetchNextSessions_resumed n r s"

definition run :: "Logic \<Rightarrow> event list \<Rightarrow> Logic" where
  "run s es = foldl (\<lambda>s e. fst (step s e)) s es"

text \<open>An event that is the successful outcome of a fetch.\<close>

fun successful_fetch :: "event \<Rightarrow> bool" where
  "successful_fetch (Settled i (Resolved response)) = True"
| "successful_fetch _ = False"

section \<open>Example data\<close>

definition S1 :: SessionType where
  "S1 = \<lparr> global_session_id = ''s1'', session_recording_ids = [''r1''] \<rparr>"

definition S2 :: SessionType where
  "S2 = \<lparr> global_session_id = ''s2'', session_recording_ids = [] \<rparr>"

definition S3 :: SessionType where
  "S3 = \<lparr> global_session_id = ''s3'', session_recording_ids = [''r2'', ''r3''] \<rparr>"

definition browser_filter :: PropertyFilter where
  "browser_filter = \<lparr> filter_key = ''$browser'', filter_operator = ''exact'',
                       filter_value = ''Chrome'' \<rparr>"

text \<open>The scenario of the spec: the first of May 2021 (day 18748 of the Unix era).\<close>

definition may_first :: Moment where
  "may_first = Valid 18748 0"

definition page1 :: Response where
  "page1 = \<lparr> result = [S1, S2], offset = Some 20 \<rparr>"

definition page2 :: Response where
  "page2 = \<lparr> result = [S3], offset = None \<rparr>"

definition may_first_query :: Query where
  "may_first_query =
     \<lparr> date_from = Some (YYYY_MM_DD 18748), date_to = Some (YYYY_MM_DD 18748),
       offset_param = Some 0, distinct_id = Some [], properties_param = Some [] \<rparr>"

text \<open>Filters set, first page loaded, next page requested and still under way.\<close>

definition scenario_loaded :: Logic where
  "scenario_loaded =
     run (initial None)
       [Invoke_setFilters [] (Some may_first),
        DelayElapsed 1 may_first_query,
        Settled (LoadSessions_call 1) (Resolved page1),
        Invoke_fetchNextSessions]"

text \<open>
  Two overlapping runs of the loader: the second starts while the request of the first
  is under way, and the response to the second arrives first.
\<close>

definition overlapping_loads :: Logic where
  "overlapping_loads =
     run (initial None)
       [Invoke_setFilters [] (Some may_first),
        DelayElapsed 1 may_first_query,
        Invoke_loadSessions,
        DelayElapsed 2 may_first_query,
        Settled (LoadSessions_call 2) (Resolved page1)]"

text \<open>A URL that carries a date and nothing else, and a router without properties.\<close>

definition date_only_params :: Params where
  "date_only_params =
     \<lparr> param_date = Some (YYYY_MM_DD 18748), param_properties = None,
       param_sessionRecordingId = None \<rparr>"

definition filtered_params :: Params where
  "filtered_params =
     \<lparr> param_date = Some (YYYY_MM_DD 18749), param_properties = Some [browser_filter],
       param_sessionRecordingId = Some ''r1'' \<rparr>"

definition sessions_router :: Router where
  "sessions_router = \<lparr> searchParams_properties = None, location_pathname = ''/sessions'' \<rparr>"

text \<open>The view has set a property filter; a recording is being played.\<close>

definition filtered :: Logic where
  "filtered = fst (step (initial None) (Invoke_setFilters [browser_filter] (Some may_first)))"

definition playing :: Logic where
  "playing = fst (step scenario_loaded (Invoke_setSessionRecordingId ''r1''))"

section \<open>Derived values\<close>

lemma foldl_append_concat:
  "foldl (\<lambda>acc x. acc @ f x) acc0 xs = acc0 @ concat (map f xs)"
  by (induction xs arbitrary: acc0) simp_all

text \<open>
  Claim C8. For every list of loaded sessions, the ordered recording-id sequence is the
  concatenation, in load order, of the \<^verbatim>\<open>session_recording_ids\<close> lists of the sessions:
  sessions keep their order and so do the ids within each session.
\<close>

theorem orderedSessionRecordingIds_concat:
  "orderedSessionRecordingIds ss = concat (map session_recording_ids ss)"
  by (simp add: orderedSessionRecordingIds_def flatMap_def foldl_append_concat)

theorem orderedSessionRecordingIds_concat_witness:
  "orderedSessionRecordingIds [S1, S2, S3] = [''r1'', ''r2'', ''r3'']"
  using orderedSessionRecordingIds_concat [of "[S1, S2, S3]"]
  by (simp add: S1_def S2_def S3_def)

text \<open>
  Claim C10. For every state, the reducers change nothing but \<^verbatim>\<open>sessionRecordingId\<close> on
  the actions \<^verbatim>\<open>setSessionRecordingId(id)\<close> and \<^verbatim>\<open>closeSessionPlayer\<close>: the session
  list, the cursor, the loading-next flag, the selected date and the property filters
  keep their values; the selection becomes the id, respectively null.
\<close>

theorem selection_actions_frame:
  "reducers v (SetSessionRecordingId r) = v \<lparr> sessionRecordingId := Some r \<rparr> \<and>
   reducers v CloseSessionPlayer = v \<lparr> sessionRecordingId := None \<rparr>"
  by (simp add: reducers_def)

theorem selection_actions_frame_witness:
  "reducers \<lparr> sessions = [S1], isLoadingNext = True, nextOffset = Some 20,
              selectedDate = Some (Valid 7 0), properties = [browser_filter],
              sessionRecordingId = Some ''r1'' \<rparr> CloseSessionPlayer
   = \<lparr> sessions = [S1], isLoadingNext = True, nextOffset = Some 20,
       selectedDate = Some (Valid 7 0), properties = [browser_filter],
       sessionRecordingId = None \<rparr>"
  using selection_actions_frame
    [of "\<lparr> sessions = [S1], isLoadingNext = True, nextOffset = Some 20,
           selectedDate = Some (Valid 7 0), properties = [browser_filter],
           sessionRecordingId = Some ''r1'' \<rparr>"]
  by simp

subsection \<open>Navigation\<close>

lemma indexOf_from_found:
  "indexOf_from k xs x \<noteq> - 1 \<Longrightarrow> 0 \<le> k \<Longrightarrow>
     \<exists>j < length xs. indexOf_from k xs x = k + int j \<and> xs ! j = x"
proof (induction xs arbitrary: k)
  case Nil
  then show ?case by simp
next
  case (Cons y ys)
  show ?case
  proof (cases "y = x")
    case True
    then show ?thesis by auto
  next
    case False
    with Cons.prems have "indexOf_from (k + 1) ys x \<noteq> - 1" "0 \<le> k + 1" by simp_all
    from Cons.IH [OF this] obtain j where
      "j < length ys" "indexOf_from (k + 1) ys x = k + 1 + int j" "ys ! j = x" by blast
    with False show ?thesis by (intro exI [of _ "Suc j"]) simp
  qed
qed

lemma indexOf_from_distinct:
  "distinct xs \<Longrightarrow> j < length xs \<Longrightarrow> indexOf_from k xs (xs ! j) = k + int j"
proof (induction xs arbitrary: k j)
  case Nil
  then show ?case by simp
next
  case (Cons y ys)
  show ?case
  proof (cases j)
    case 0
    then show ?thesis by simp
  next
    case (Suc i)
    with Cons.prems have i: "i < length ys" and d: "distinct ys" and "y \<notin> set ys" by simp_all
    then have "y \<noteq> ys ! i" by (metis nth_mem)
    with Cons.IH [OF d i, of "k + 1"] Suc show ?thesis by simp
  qed
qed

text \<open>
  Claim C7, as stated: for every sequence of recordings and every selected recording
  \<open>x\<close>, if the navigation of \<open>x\<close> has a next recording \<open>y\<close> then the navigation of \<open>y\<close> has
  \<open>x\<close> as its previous one. It fails when an id occurs twice, because \<^verbatim>\<open>indexOf\<close> finds
  the first occurrence: in \<open>[a, b, a]\<close> the next of \<open>b\<close> is \<open>a\<close>, which is found at index 0
  and has no previous recording.
\<close>

theorem navigation_symmetry_counterexample:
  "nav_next (navigation [''a'', ''b'', ''a''] (Some ''b'')) = Some ''a'' \<and>
   nav_prev (navigation [''a'', ''b'', ''a''] (Some ''a'')) \<noteq> Some ''b''"
  by (simp add: navigation_def indexOf_def)

text \<open>
  Claim C7, amended: for every list of loaded sessions whose recording-id sequence has no
  id twice and every selected recording \<open>x\<close>, if the navigation selector defines a next
  recording \<open>y\<close> for \<open>x\<close>, then after \<^verbatim>\<open>setSessionRecordingId(y)\<close> the navigation selector
  gives \<open>x\<close> as the previous recording.
\<close>

theorem navigation_symmetry:
  assumes "distinct (orderedSessionRecordingIds (sessions v))"
    and "sessionRecordingId v = Some x"
    and "nav_next (sessionRecordingNavigation v) = Some y"
  shows "nav_prev (sessionRecordingNavigation (reducers v (SetSessionRecordingId y))) = Some x"
proof -
  let ?rs = "orderedSessionRecordingIds (sessions v)"
  let ?i = "indexOf ?rs x"
  from assms(2,3) have found: "?i \<noteq> - 1" and below: "?i < int (length ?rs) - 1"
    and y: "y = ?rs ! nat (?i + 1)"
    by (auto simp: sessionRecordingNavigation_def navigation_def Let_def split: if_splits)
  from indexOf_from_found [of 0 ?rs x] found obtain j where
    j: "j < length ?rs" "?i = int j" "?rs ! j = x"
    by (auto simp: indexOf_def)
  with below have sj: "Suc j < length ?rs" by simp
  from y j have y': "y = ?rs ! Suc j" by (simp add: nat_add_distrib)
  from indexOf_from_distinct [OF assms(1) sj, of 0] y'
  have "indexOf ?rs y = int (Suc j)" by (simp add: indexOf_def)
  with j show ?thesis
    by (simp add: sessionRecordingNavigation_def navigation_def Let_def reducers_def)
qed

theorem navigation_symmetry_witness:
  "distinct (orderedSessionRecordingIds (sessions (defaults \<lparr> sessions := [S1, S2, S3],
      sessionRecordingId := Some ''r1'' \<rparr>))) \<and>
   nav_next (sessionRecordingNavigation (defaults \<lparr> sessions := [S1, S2, S3],
      sessionRecordingId := Some ''r1'' \<rparr>)) = Some ''r2'' \<and>
   nav_prev (sessionRecordingNavigation (reducers (defaults \<lparr> sessions := [S1, S2, S3],
      sessionRecordingId := Some ''r1'' \<rparr>) (SetSessionRecordingId ''r2''))) = Some ''r1''"
proof -
  let ?v = "defaults \<lparr> sessions := [S1, S2, S3], sessionRecordingId := Some ''r1'' \<rparr>"
  have ids: "orderedSessionRecordingIds (sessions ?v) = [''r1'', ''r2'', ''r3'']"
    by (simp add: orderedSessionRecordingIds_def flatMap_def S1_def S2_def S3_def)
  have d: "distinct (orderedSessionRecordingIds (sessions ?v))"
    unfolding ids by simp
  have sel: "sessionRecordingId ?v = Some ''r1''" by simp
  have n: "nav_next (sessionRecordingNavigation ?v) = Some ''r2''"
    unfolding sessionRecordingNavigation_def ids
    by (simp add: navigation_def indexOf_def)
  from navigation_symmetry [OF d sel n] d n show ?thesis by simp
qed

section \<open>Fetching\<close>

lemmas handler_defs = skip_def seq_def reduce_def

lemmas listener_defs =
  loadSessions_def loadSessions_delay_elapsed_def loadSessions_resumed_def
  fetchNextSessions_def fetchNextSessions_resumed_def
  setFilters_def previousDay_def nextDay_def

lemma scenario_loaded_eq:
  "scenario_loaded =
     \<lparr> vals = \<lparr> sessions = [S1, S2], isLoadingNext = True, nextOffset = Some 20,
                selectedDate = Some may_first, properties = [],
                sessionRecordingId = None \<rparr>,
       personIds = None, loadSessions_calls = 1, fetchNextSessions_calls = 1 \<rparr>"
  by (simp add: scenario_loaded_def run_def initial_def defaults_def page1_def
      handler_defs listener_defs reducers_def)

lemma overlapping_loads_eq:
  "overlapping_loads =
     \<lparr> vals = \<lparr> sessions = [S1, S2], isLoadingNext = False, nextOffset = Some 20,
                selectedDate = Some may_first, properties = [],
                sessionRecordingId = None \<rparr>,
       personIds = None, loadSessions_calls = 2, fetchNextSessions_calls = 0 \<rparr>"
  by (simp add: overlapping_loads_def run_def initial_def defaults_def page1_def
      handler_defs listener_defs reducers_def)

subsection \<open>Failures\<close>

text \<open>
  Claim C1, as stated, says that a failed next-page fetch sets the loading-next flag to
  false. It does not: from the initial state, \<^verbatim>\<open>fetchNextSessions\<close> sets the flag, and
  when the request throws, the listener stops at \<^verbatim>\<open>await api.get\<close> and dispatches
  nothing, so the flag is still set.
\<close>

theorem failed_next_page_counterexample:
  "\<not> (isLoadingNext (vals (run (initial None)
         [Invoke_fetchNextSessions, Settled (FetchNextSessions_call 1) Rejected])) = False)"
  by (simp add: run_def initial_def defaults_def handler_defs listener_defs reducers_def)

text \<open>
  Claim C1, amended: for every state, a failed initial load (whichever run of the loader
  it belongs to) leaves the session list empty and the cursor null; a failed next-page
  fetch dispatches nothing and changes nothing: the loaded sessions and the cursor are
  as before, and so is the loading-next flag, which no failure handler resets.
\<close>

theorem failed_fetches:
  "sessions (vals (fst (step s (Settled (LoadSessions_call n) Rejected)))) = [] \<and>
   nextOffset (vals (fst (step s (Settled (LoadSessions_call n) Rejected)))) = None \<and>
   step s (Settled (FetchNextSessions_call m) Rejected) = (s, [])"
  by (simp add: handler_defs listener_defs reducers_def)

theorem failed_fetches_witness:
  "sessions (vals scenario_loaded) = [S1, S2] \<and>
   isLoadingNext (vals scenario_loaded) \<and>
   sessions (vals (fst (step scenario_loaded (Settled (LoadSessions_call 1) Rejected)))) = [] \<and>
   nextOffset (vals (fst (step scenario_loaded (Settled (LoadSessions_call 1) Rejected)))) = None \<and>
   step scenario_loaded (Settled (FetchNextSessions_call 1) Rejected) = (scenario_loaded, [])"
  using failed_fetches [of scenario_loaded 1 1]
  by (simp add: scenario_loaded_eq)

subsection \<open>The next page\<close>

text \<open>
  Claim C2, as stated: in a state whose cursor is null, invoking \<^verbatim>\<open>fetchNextSessions\<close>
  issues no request. It does: the listener has no test of the cursor. In the initial
  state the cursor is null and the invocation issues a request without an offset.
\<close>

theorem null_cursor_fetch_counterexample:
  "nextOffset (vals (initial None)) = None \<and>
   snd (step (initial None) Invoke_fetchNextSessions) =
     [Dispatched FetchNextSessions,
      ApiGet (FetchNextSessions_call 1)
        \<lparr> date_from = None, date_to = None, offset_param = None,
          distinct_id = None, properties_param = None \<rparr>]"
  by (simp add: initial_def defaults_def handler_defs listener_defs reducers_def
      fetchNextSessions_params_def selectedDateURLparam_def)

text \<open>
  Claim C2, amended: in every state, invoking \<^verbatim>\<open>fetchNextSessions\<close> sets the
  loading-next flag and issues exactly one next-page request, whose offset parameter is
  the stored cursor, also when the cursor is null; the logic has no guard on the cursor.
\<close>

theorem fetchNextSessions_request:
  "snd (step s Invoke_fetchNextSessions) =
     [Dispatched FetchNextSessions,
      ApiGet (FetchNextSessions_call (Suc (fetchNextSessions_calls s)))
        \<lparr> date_from = selectedDateURLparam (vals s),
          date_to = selectedDateURLparam (vals s),
          offset_param = nextOffset (vals s),
          distinct_id = None, properties_param = None \<rparr>] \<and>
   isLoadingNext (vals (fst (step s Invoke_fetchNextSessions)))"
  by (simp add: handler_defs listener_defs reducers_def
      fetchNextSessions_params_def selectedDateURLparam_def)

theorem fetchNextSessions_request_witness:
  "snd (step overlapping_loads Invoke_fetchNextSessions) =
     [Dispatched FetchNextSessions,
      ApiGet (FetchNextSessions_call 1)
        \<lparr> date_from = Some (YYYY_MM_DD 18748), date_to = Some (YYYY_MM_DD 18748),
          offset_param = Some 20, distinct_id = None, properties_param = None \<rparr>]"
  using fetchNextSessions_request [of overlapping_loads]
  by (simp add: overlapping_loads_eq selectedDateURLparam_def may_first_def)

text \<open>
  Claim C6. For every state, a successful \<^verbatim>\<open>fetchNextSessions\<close> (the invocation,
  then the response to its request) appends the returned page to the end of the session
  list, both in their order, sets the cursor to the offset the server returned, or to
  null when the response has no offset (or the offset 0, which the truthiness test
  takes for none), and sets the loading-next flag to false. Nothing else changes.
\<close>

theorem fetchNextSessions_success:
  "vals (run s [Invoke_fetchNextSessions,
                Settled (FetchNextSessions_call (Suc (fetchNextSessions_calls s))) (Resolved r)])
   = (vals s) \<lparr> sessions := sessions (vals s) @ result r,
               nextOffset := (if truthy_number (offset r) then offset r else None),
               isLoadingNext := False \<rparr>"
  by (simp add: run_def handler_defs listener_defs reducers_def)

theorem fetchNextSessions_success_witness:
  "vals (run overlapping_loads
          [Invoke_fetchNextSessions, Settled (FetchNextSessions_call 1) (Resolved page2)])
   = \<lparr> sessions = [S1, S2, S3], isLoadingNext = False, nextOffset = None,
       selectedDate = Some may_first, properties = [], sessionRecordingId = None \<rparr>"
  using fetchNextSessions_success [of overlapping_loads page2]
  by (simp add: overlapping_loads_eq page2_def)

subsection \<open>Superseded loads\<close>

text \<open>
  Claim C9, as stated: every superseded \<^verbatim>\<open>loadSessions\<close> request leaves the session
  list and the cursor as they are. A superseded request that fails does not: the
  exception leaves the loader at \<^verbatim>\<open>await api.get\<close>, before \<^verbatim>\<open>breakpoint()\<close>, and the
  failure action empties the list and clears the cursor. Below, run 2 of the loader has
  committed its page when the request of run 1 fails.
\<close>

theorem superseded_load_counterexample:
  "loadSessions_calls overlapping_loads = 2 \<and>
   sessions (vals overlapping_loads) = [S1, S2] \<and>
   nextOffset (vals overlapping_loads) = Some 20 \<and>
   sessions (vals (fst (step overlapping_loads (Settled (LoadSessions_call 1) Rejected)))) = [] \<and>
   nextOffset (vals (fst (step overlapping_loads (Settled (LoadSessions_call 1) Rejected)))) = None"
  by (simp add: overlapping_loads_eq handler_defs listener_defs reducers_def)

text \<open>
  Claim C9, amended: when several \<^verbatim>\<open>loadSessions\<close> calls overlap, a superseded run of
  the loader whose delay elapses issues no request, and a superseded run whose request
  is answered discards the response: the test comes right before the result is
  committed, nothing is dispatched, and the whole state, session list and cursor
  included, is unchanged.
\<close>

theorem superseded_load_discarded:
  assumes "n \<noteq> loadSessions_calls s"
  shows "step s (DelayElapsed n q) = (s, []) \<and>
         step s (Settled (LoadSessions_call n) (Resolved r)) = (s, [])"
  using assms by (simp add: handler_defs listener_defs)

theorem superseded_load_discarded_witness:
  "1 \<noteq> loadSessions_calls overlapping_loads \<and>
   step overlapping_loads (DelayElapsed 1 may_first_query) = (overlapping_loads, []) \<and>
   step overlapping_loads (Settled (LoadSessions_call 1) (Resolved page2)) = (overlapping_loads, [])"
proof -
  have stale: "1 \<noteq> loadSessions_calls overlapping_loads"
    by (simp add: overlapping_loads_eq)
  from superseded_load_discarded [OF stale, of may_first_query page2] stale
  show ?thesis by simp
qed

subsection \<open>The cursor after a change of filters\<close>

lemma step_keeps_cursor_null:
  assumes "\<not> successful_fetch e" and "nextOffset (vals s) = None"
  shows "nextOffset (vals (fst (step s e))) = None"
proof (cases e)
  case (UrlChanged today params)
  with assms show ?thesis
    by (simp add: urlToAction_def handler_defs listener_defs reducers_def Let_def
        split: option.splits)
next
  case (Settled i r)
  with assms show ?thesis
    by (cases i; cases r) (simp_all add: handler_defs listener_defs reducers_def)
qed (use assms in \<open>simp_all add: handler_defs listener_defs reducers_def Let_def\<close>)

lemma run_keeps_cursor_null:
  "\<forall>e \<in> set es. \<not> successful_fetch e \<Longrightarrow> nextOffset (vals s) = None \<Longrightarrow>
     nextOffset (vals (run s es)) = None"
  unfolding run_def
  by (induction es arbitrary: s) (simp_all add: step_keeps_cursor_null)

lemma setFilters_clears_cursor:
  "nextOffset (vals (fst (step s (Invoke_setFilters ps d)))) = None"
  by (simp add: handler_defs listener_defs reducers_def Let_def)

lemma current_load_sets_cursor:
  "n = loadSessions_calls s \<Longrightarrow> truthy_number (offset r) \<Longrightarrow>
     nextOffset (vals (fst (step s (Settled (LoadSessions_call n) (Resolved r))))) = offset r"
  by (simp add: handler_defs listener_defs reducers_def)

text \<open>
  Claim C5. For every change of filters: right after \<^verbatim>\<open>setFilters(properties, date)\<close>
  the cursor is null; it is still null after any sequence of events none of which is the
  successful outcome of a fetch; and when the response to the current run of the loader
  then arrives with an offset, the cursor becomes that offset.
\<close>

theorem cursor_null_after_setFilters:
  assumes "\<forall>e \<in> set es. \<not> successful_fetch e"
  shows "nextOffset (vals (fst (step s (Invoke_setFilters ps d)))) = None \<and>
         nextOffset (vals (run (fst (step s (Invoke_setFilters ps d))) es)) = None \<and>
         (truthy_number (offset r) \<longrightarrow>
            nextOffset (vals (fst (step (run (fst (step s (Invoke_setFilters ps d))) es)
              (Settled (LoadSessions_call
                 (loadSessions_calls (run (fst (step s (Invoke_setFilters ps d))) es)))
                 (Resolved r))))) = offset r)"
proof -
  let ?s0 = "fst (step s (Invoke_setFilters ps d))"
  have start: "nextOffset (vals ?s0) = None"
    by (rule setFilters_clears_cursor)
  have stays: "nextOffset (vals (run ?s0 es)) = None"
    using assms start by (rule run_keeps_cursor_null)
  have sets: "truthy_number (offset r) \<longrightarrow>
      nextOffset (vals (fst (step (run ?s0 es)
        (Settled (LoadSessions_call (loadSessions_calls (run ?s0 es))) (Resolved r))))) = offset r"
    using current_load_sets_cursor [OF refl, of r "run ?s0 es"] by blast
  from start stays sets show ?thesis by blast
qed

theorem cursor_null_after_setFilters_witness:
  "nextOffset (vals scenario_loaded) = Some 20 \<and>
   nextOffset (vals (fst (step scenario_loaded (Invoke_setFilters [browser_filter] (Some may_first))))) = None \<and>
   nextOffset (vals (run (fst (step scenario_loaded (Invoke_setFilters [browser_filter] (Some may_first))))
      [Settled (FetchNextSessions_call 1) Rejected, DelayElapsed 2 may_first_query,
       Invoke_setSessionRecordingId ''r1''])) = None \<and>
   nextOffset (vals (fst (step (run (fst (step scenario_loaded (Invoke_setFilters [browser_filter] (Some may_first))))
      [Settled (FetchNextSessions_call 1) Rejected, DelayElapsed 2 may_first_query,
       Invoke_setSessionRecordingId ''r1''])
      (Settled (LoadSessions_call
         (loadSessions_calls (run (fst (step scenario_loaded (Invoke_setFilters [browser_filter] (Some may_first))))
            [Settled (FetchNextSessions_call 1) Rejected, DelayElapsed 2 may_first_query,
             Invoke_setSessionRecordingId ''r1''])))
         (Resolved page1))))) = Some 20"
proof -
  have quiet: "\<forall>e \<in> set [Settled (FetchNextSessions_call 1) Rejected,
      DelayElapsed 2 may_first_query, Invoke_setSessionRecordingId ''r1'']. \<not> successful_fetch e"
    by simp
  have before: "nextOffset (vals scenario_loaded) = Some 20"
    by (simp add: scenario_loaded_eq)
  from cursor_null_after_setFilters [OF quiet, of scenario_loaded "[browser_filter]" "Some may_first" page1]
    before
  show ?thesis by (simp add: page1_def)
qed

section \<open>URL synchronisation: reconciliation and round trip\<close>

lemma format_startOf_day_moment:
  "format_YYYY_MM_DD (startOf_day (moment (format_YYYY_MM_DD m))) = format_YYYY_MM_DD m"
  by (cases m) simp_all

lemma filtered_eq:
  "filtered =
     \<lparr> vals = \<lparr> sessions = [], isLoadingNext = False, nextOffset = None,
                selectedDate = Some may_first, properties = [browser_filter],
                sessionRecordingId = None \<rparr>,
       personIds = None, loadSessions_calls = 1, fetchNextSessions_calls = 0 \<rparr>"
  by (simp add: filtered_def initial_def defaults_def handler_defs listener_defs reducers_def)

lemma playing_eq:
  "playing =
     \<lparr> vals = \<lparr> sessions = [S1, S2], isLoadingNext = True, nextOffset = Some 20,
                selectedDate = Some may_first, properties = [],
                sessionRecordingId = Some ''r1'' \<rparr>,
       personIds = None, loadSessions_calls = 1, fetchNextSessions_calls = 1 \<rparr>"
  by (simp add: playing_def scenario_loaded_eq handler_defs reducers_def)

text \<open>
  Claim C3, as stated: whenever the decoded filters differ from the current ones,
  \<^verbatim>\<open>setFilters\<close> is called with the decoded values, and whenever the decoded recording id
  differs from the selection, the selection becomes the decoded id. Both fail at a
  guard. In the initial state no date is selected; a URL with a date and no properties
  only triggers \<^verbatim>\<open>loadSessions\<close>, and the selected date stays null, because the dates are
  compared only when \<^verbatim>\<open>values.selectedDate\<close> is set. And while a recording is selected, a
  URL without a recording id leaves the selection as it is, because the ids are compared
  only when the parameter is present.
\<close>

theorem urlToAction_counterexample:
  "selectedDate (vals (initial None)) \<noteq> Some (newDate 18750 date_only_params) \<and>
   snd (step (initial None) (UrlChanged 18750 date_only_params)) =
     [Dispatched LoadSessions,
      Delay 1 \<lparr> date_from = None, date_to = None, offset_param = Some 0,
                distinct_id = Some [], properties_param = Some [] \<rparr>] \<and>
   selectedDate (vals (fst (step (initial None) (UrlChanged 18750 date_only_params)))) = None \<and>
   param_sessionRecordingId date_only_params \<noteq> sessionRecordingId (vals playing) \<and>
   sessionRecordingId (vals (fst (step playing (UrlChanged 18750 date_only_params)))) = Some ''r1''"
  by (simp add: playing_eq may_first_def initial_def defaults_def date_only_params_def urlToAction_def newDate_def
      properties_or_empty_def loadSessions_params_def selectedDateURLparam_def
      handler_defs listener_defs reducers_def)

text \<open>
  Claim C3, amended: on every inbound URL change, for every state and parameters: if the
  decoded property list differs from the current one, or a date is selected and its
  calendar day differs from that of the decoded date, \<^verbatim>\<open>setFilters\<close> is called with the
  decoded values, which become the filters; otherwise \<^verbatim>\<open>setFilters\<close> is not called, and
  \<^verbatim>\<open>loadSessions\<close> is triggered exactly when no sessions are loaded; and in either case
  the selection becomes the recording id of the URL when that id is present, non-empty
  and different from the selection, and is unchanged otherwise.
\<close>

theorem urlToAction_reconciles:
  "((properties_or_empty params \<noteq> properties (vals s) \<or>
     (\<exists>m. selectedDate (vals s) = Some m \<and>
          format_YYYY_MM_DD m \<noteq> format_YYYY_MM_DD (newDate today params))) \<longrightarrow>
      Dispatched (SetFilters (properties_or_empty params) (Some (newDate today params)))
        \<in> set (snd (step s (UrlChanged today params))) \<and>
      properties (vals (fst (step s (UrlChanged today params)))) = properties_or_empty params \<and>
      selectedDate (vals (fst (step s (UrlChanged today params)))) = Some (newDate today params)) \<and>
   (\<not> (properties_or_empty params \<noteq> properties (vals s) \<or>
     (\<exists>m. selectedDate (vals s) = Some m \<and>
          format_YYYY_MM_DD m \<noteq> format_YYYY_MM_DD (newDate today params))) \<longrightarrow>
      (\<forall>ps d. Dispatched (SetFilters ps d) \<notin> set (snd (step s (UrlChanged today params)))) \<and>
      (Dispatched LoadSessions \<in> set (snd (step s (UrlChanged today params))))
        = (sessions (vals s) = [])) \<and>
   sessionRecordingId (vals (fst (step s (UrlChanged today params)))) =
     (if truthy_string (param_sessionRecordingId params) \<and>
         param_sessionRecordingId params \<noteq> sessionRecordingId (vals s)
      then param_sessionRecordingId params else sessionRecordingId (vals s))"
  by (cases "selectedDate (vals s)"; cases "param_sessionRecordingId params")
     (auto simp add: urlToAction_def handler_defs listener_defs reducers_def Let_def)

theorem urlToAction_reconciles_witness:
  "Dispatched (SetFilters [browser_filter] (Some (Valid 18749 0)))
     \<in> set (snd (step scenario_loaded (UrlChanged 18750 filtered_params))) \<and>
   properties (vals (fst (step scenario_loaded (UrlChanged 18750 filtered_params)))) = [browser_filter] \<and>
   selectedDate (vals (fst (step scenario_loaded (UrlChanged 18750 filtered_params)))) = Some (Valid 18749 0) \<and>
   sessionRecordingId (vals (fst (step scenario_loaded (UrlChanged 18750 filtered_params)))) = Some ''r1'' \<and>
   Dispatched LoadSessions \<in> set (snd (step (initial None) (UrlChanged 18750 date_only_params))) \<and>
   sessionRecordingId (vals (fst (step (initial None) (UrlChanged 18750 date_only_params)))) = None"
proof -
  have differ: "properties_or_empty filtered_params \<noteq> properties (vals scenario_loaded)"
    by (simp add: properties_or_empty_def filtered_params_def scenario_loaded_eq)
  have decoded: "properties_or_empty filtered_params = [browser_filter]"
    "newDate 18750 filtered_params = Valid 18749 0"
    "param_sessionRecordingId filtered_params = Some ''r1''"
    "sessionRecordingId (vals scenario_loaded) = None"
    by (simp_all add: properties_or_empty_def newDate_def filtered_params_def scenario_loaded_eq)
  have same: "\<not> (properties_or_empty date_only_params \<noteq> properties (vals (initial None)) \<or>
     (\<exists>m. selectedDate (vals (initial None)) = Some m \<and>
          format_YYYY_MM_DD m \<noteq> format_YYYY_MM_DD (newDate 18750 date_only_params)))"
    "sessions (vals (initial None)) = []"
    "param_sessionRecordingId date_only_params = None"
    "sessionRecordingId (vals (initial None)) = None"
    by (simp_all add: properties_or_empty_def date_only_params_def initial_def defaults_def)
  from urlToAction_reconciles [of filtered_params scenario_loaded 18750] differ decoded
  have A: "Dispatched (SetFilters [browser_filter] (Some (Valid 18749 0)))
     \<in> set (snd (step scenario_loaded (UrlChanged 18750 filtered_params))) \<and>
   properties (vals (fst (step scenario_loaded (UrlChanged 18750 filtered_params)))) = [browser_filter] \<and>
   selectedDate (vals (fst (step scenario_loaded (UrlChanged 18750 filtered_params)))) = Some (Valid 18749 0) \<and>
   sessionRecordingId (vals (fst (step scenario_loaded (UrlChanged 18750 filtered_params)))) = Some ''r1''"
    by simp
  from urlToAction_reconciles [of date_only_params "initial None" 18750] same
  have B: "Dispatched LoadSessions \<in> set (snd (step (initial None) (UrlChanged 18750 date_only_params))) \<and>
   sessionRecordingId (vals (fst (step (initial None) (UrlChanged 18750 date_only_params)))) = None"
    by simp
  from A B show ?thesis by blast
qed

text \<open>
  Claim C4, as stated: for every state, encoding the state and decoding the parameters
  gives back the same property filters. The encoder does not read the filters of the
  state: it copies the \<^verbatim>\<open>properties\<close> entry of the router's current search parameters.
  When the view has set a filter that the URL does not carry, the encoded URL has no
  properties, and decoding it resets the filters to the empty list.
\<close>

theorem url_round_trip_counterexample:
  "properties (vals filtered) = [browser_filter] \<and>
   properties (vals (fst (step filtered
      (UrlChanged 18750 (encode 18750 sessions_router (vals filtered)))))) = []"
  by (simp add: filtered_eq encode_def buildURL_def sessions_router_def may_first_def
      selectedDateURLparam_def moment_now_startOf_day_def
      urlToAction_def newDate_def properties_or_empty_def
      handler_defs listener_defs reducers_def)

text \<open>
  Claim C4, amended: for every state whose property filters are those of the router's
  current search parameters (none counting as the empty list), encoding the state and
  letting the logic decode the parameters leaves all values as they are, and the decoded
  values are those of the state: the same property filters, a date on the same calendar
  day as the selected date, and the selected recording id when one is selected. The date
  parameter is absent exactly when no date is selected or the selected date is on the
  current day, and in the latter case it decodes to the start of the current day.
\<close>

theorem url_round_trip:
  assumes "(case searchParams_properties router of None \<Rightarrow> [] | Some ps \<Rightarrow> ps)
             = properties (vals s)"
  shows "vals (fst (step s (UrlChanged today (encode today router (vals s))))) = vals s \<and>
     properties_or_empty (encode today router (vals s)) = properties (vals s) \<and>
     (\<forall>m. selectedDate (vals s) = Some m \<longrightarrow>
        format_YYYY_MM_DD (newDate today (encode today router (vals s))) = format_YYYY_MM_DD m) \<and>
     (truthy_string (sessionRecordingId (vals s)) \<longrightarrow>
        param_sessionRecordingId (encode today router (vals s)) = sessionRecordingId (vals s)) \<and>
     (param_date (encode today router (vals s)) = None) =
        (selectedDateURLparam (vals s) = None \<or>
         selectedDateURLparam (vals s) = Some (YYYY_MM_DD today)) \<and>
     (selectedDateURLparam (vals s) = Some (YYYY_MM_DD today) \<longrightarrow>
        newDate today (encode today router (vals s)) = moment_now_startOf_day today)"
proof -
  let ?params = "encode today router (vals s)"
  have props: "properties_or_empty ?params = properties (vals s)"
    using assms
    by (cases "searchParams_properties router")
       (simp_all add: encode_def buildURL_def Let_def properties_or_empty_def)
  have date: "param_date ?params =
      (if selectedDateURLparam (vals s) = Some (YYYY_MM_DD today) then None
       else selectedDateURLparam (vals s))"
    by (cases "searchParams_properties router")
       (simp_all add: encode_def buildURL_def Let_def moment_now_startOf_day_def)
  have sel: "param_sessionRecordingId ?params =
      (if truthy_string (sessionRecordingId (vals s)) then sessionRecordingId (vals s) else None)"
    by (cases "searchParams_properties router")
       (simp_all add: encode_def buildURL_def Let_def)
  have day: "format_YYYY_MM_DD (newDate today ?params) = format_YYYY_MM_DD m"
    if "selectedDate (vals s) = Some m" for m
    using that date
    by (auto simp add: newDate_def selectedDateURLparam_def moment_now_startOf_day_def
        format_startOf_day_moment split: if_splits)
  have stable: "vals (fst (step s (UrlChanged today ?params))) = vals s"
    using props sel day
    by (cases "selectedDate (vals s)")
       (auto simp add: urlToAction_def handler_defs listener_defs reducers_def)
  have today: "newDate today ?params = moment_now_startOf_day today"
    if "selectedDateURLparam (vals s) = Some (YYYY_MM_DD today)"
    using that date by (simp add: newDate_def)
  from props date sel day stable today show ?thesis by auto
qed

theorem url_round_trip_witness:
  "vals (fst (step playing (UrlChanged 18750 (encode 18750 sessions_router (vals playing)))))
     = vals playing \<and>
   encode 18750 sessions_router (vals playing) =
     \<lparr> param_date = Some (YYYY_MM_DD 18748), param_properties = None,
       param_sessionRecordingId = Some ''r1'' \<rparr> \<and>
   vals (fst (step playing (UrlChanged 18748 (encode 18748 sessions_router (vals playing)))))
     = vals playing \<and>
   param_date (encode 18748 sessions_router (vals playing)) = None \<and>
   newDate 18748 (encode 18748 sessions_router (vals playing)) = Valid 18748 0"
proof -
  have same: "(case searchParams_properties sessions_router of None \<Rightarrow> [] | Some ps \<Rightarrow> ps)
      = properties (vals playing)"
    by (simp add: sessions_router_def playing_eq)
  have url: "selectedDateURLparam (vals playing) = Some (YYYY_MM_DD 18748)"
    by (simp add: selectedDateURLparam_def playing_eq may_first_def)
  have enc: "encode 18750 sessions_router (vals playing) =
     \<lparr> param_date = Some (YYYY_MM_DD 18748), param_properties = None,
       param_sessionRecordingId = Some ''r1'' \<rparr>"
    by (simp add: encode_def buildURL_def Let_def selectedDateURLparam_def may_first_def
        sessions_router_def playing_eq moment_now_startOf_day_def)
  from url_round_trip [OF same, of 18750] url_round_trip [OF same, of 18748] url enc
  show ?thesis by (simp add: moment_now_startOf_day_def)
qed

end
